theory Spec2Isabelle
  imports Complex_Main "HOL-Library.Word"
begin

section \<open>Python values and exceptions\<close>

text \<open>
  The module \<open>ble2lsl/devices/muse2016.py\<close> raises no exception of its own: every failure
  is an exception of the interpreter or of a library, and none is caught. An exception is
  the \<open>Inl\<close> of a result; the handler state travels beside the result, so that what a
  call had already written when it raised stays visible.
\<close>

datatype pykey = IntKey int | StrKey string

datatype pyexc =
    KeyError pykey
  | ReadError
  | UnboundLocalError string
  | IndexError
  | TypeError
  | ValueError
  | SyntaxError

text \<open>
  \<open>UnboundLocalError\<close> is Python's subclass of \<open>NameError\<close> for a local variable read
  before its assignment; \<open>ReadError\<close> is \<open>bitstring.ReadError\<close>.
\<close>

fun is_NameError :: "pyexc \<Rightarrow> bool" where
  "is_NameError (UnboundLocalError v) = True"
| "is_NameError e = False"

text \<open>The values \<open>ast.literal_eval\<close> hands to the callback for a status record.\<close>

datatype pyvalue =
    PStr string
  | PInt int
  | PBool bool
  | PDict "(pyvalue \<times> pyvalue) list"

section \<open>Decoding a packet: \<open>_unpack\<close>\<close>

text \<open>
  A packet format is a comma-separated string of \<open>bitstring\<close> tokens, \<open>uint:n\<close> or
  \<open>int:n\<close>; the model keeps the token list. \<open>bitstring.Bits(bytes=packet)\<close> is the bits of
  the bytes, most significant bit first. \<open>Bits.unpack\<close> reads the tokens in order from
  bit 0; a token wider than what is left raises \<open>ReadError\<close>, and bits left after the last
  token are ignored.
\<close>

datatype token = Uint nat | Sint nat

fun token_width :: "token \<Rightarrow> nat" where
  "token_width (Uint n) = n"
| "token_width (Sint n) = n"

definition format_bits :: "token list \<Rightarrow> nat" where
  "format_bits fmt = sum_list (map token_width fmt)"

definition byte_bits :: "8 word \<Rightarrow> bool list" where
  "byte_bits b = map (bit b) [7, 6, 5, 4, 3, 2, 1, 0]"

definition Bits :: "8 word list \<Rightarrow> bool list" where
  "Bits packet = concat (map byte_bits packet)"

definition uint_of_bits :: "bool list \<Rightarrow> int" where
  "uint_of_bits bs = foldl (\<lambda>acc b. 2 * acc + (if b then 1 else 0)) 0 bs"

definition int_of_bits :: "bool list \<Rightarrow> int" where
  "int_of_bits bs =
     (case bs of
        [] \<Rightarrow> 0
      | b # _ \<Rightarrow> if b then uint_of_bits bs - 2 ^ length bs else uint_of_bits bs)"

fun read_token :: "token \<Rightarrow> bool list \<Rightarrow> int" where
  "read_token (Uint n) bs = uint_of_bits bs"
| "read_token (Sint n) bs = int_of_bits bs"

fun unpack_bits :: "bool list \<Rightarrow> token list \<Rightarrow> pyexc + int list" where
  "unpack_bits bits [] = Inr []"
| "unpack_bits bits (t # ts) =
     (if length bits < token_width t then Inl ReadError
      else (case unpack_bits (drop (token_width t) bits) ts of
              Inl e \<Rightarrow> Inl e
            | Inr vs \<Rightarrow> Inr (read_token t (take (token_width t) bits) # vs)))"

definition unpack :: "8 word list \<Rightarrow> token list \<Rightarrow> pyexc + int list" where
  "unpack packet packet_format = unpack_bits (Bits packet) packet_format"

section \<open>The module's tables\<close>

definition STREAMS :: "string list" where
  "STREAMS = [''eeg'', ''accelerometer'', ''gyroscope'', ''telemetry'', ''status'']"

text \<open>
  Modelled from the spec: \<open>streams_dict = dict_partial_from_keys(STREAMS)\<close> comes from
  \<open>ble2lsl.utils\<close>, which is not part of the module. The tables it builds are per-stream
  (spec, section 6), and the module gives it one value per stream in the order of
  \<open>STREAMS\<close>: it pairs the i-th stream name with the i-th value.
\<close>

definition streams_dict :: "'a list \<Rightarrow> (string \<rightharpoonup> 'a)" where
  "streams_dict vals = map_of (zip STREAMS vals)"

text \<open>
  \<open>PARAMS\<close> is a dictionary of four entries; the model keeps, for each, the keys of the
  nested dictionary (none for a string). The entry \<open>numpy_dtype\<close> is a key of
  \<open>PARAMS["streams"]\<close>, not of \<open>PARAMS\<close>.
\<close>

datatype param = Text string | Table "string list"

definition PARAMS :: "(string \<times> param) list" where
  "PARAMS =
     [(''manufacturer'', Text ''Interaxon''),
      (''name'', Text ''Muse''),
      (''streams'', Table [''type'', ''channel_count'', ''nominal_srate'',
                            ''channel_format'', ''numpy_dtype'', ''units'',
                            ''ch_names'', ''chunk_size'']),
      (''ble'', Table [''address_type'', ''interval_min'', ''interval_max'', ''eeg'',
                        ''accelerometer'', ''gyroscope'', ''telemetry'', ''status'',
                        ''send'', ''stream_on'', ''stream_off''])]"

definition getitem :: "(string \<times> 'a) list \<Rightarrow> string \<Rightarrow> pyexc + 'a" where
  "getitem d k = (case map_of d k of None \<Rightarrow> Inl (KeyError (StrKey k)) | Some v \<Rightarrow> Inr v)"

fun param_getitem :: "param \<Rightarrow> string \<Rightarrow> pyexc + unit" where
  "param_getitem (Text s) k = Inl TypeError"
| "param_getitem (Table ks) k = (if k \<in> set ks then Inr () else Inl (KeyError (StrKey k)))"

definition HANDLE_NAMES :: "int \<rightharpoonup> string" where
  "HANDLE_NAMES =
     map_of [(14, ''status''), (26, ''telemetry''), (23, ''accelerometer''),
             (20, ''gyroscope''), (32, ''eeg''), (35, ''eeg''), (38, ''eeg''),
             (41, ''eeg''), (44, ''eeg'')]"

text \<open>
  Lines 93 to 97 build the table of packet formats. Its eeg entry is written
  \<open>'uint:16' + ',uint:12' * PARAMS["chunk_size"]\<close>, and \<open>PARAMS\<close> has no key
  \<open>chunk_size\<close> (the chunk sizes are under \<open>PARAMS["streams"]\<close>): the statement raises
  \<open>KeyError\<close> and the module builds no table (lemma \<open>PACKET_FORMATS_raises\<close>). Python
  repeats a string by an integer only, and no value of \<open>PARAMS\<close> is one.
  \<open>packet_formats n\<close> is the table the statement would build from a multiplier \<open>n\<close>;
  every entry but the first is the same for every \<open>n\<close>. \<open>process_packet\<close> below takes
  the table that its line 125 reads as a parameter: what is proved of it is proved for
  every table.
\<close>

type_synonym formats = "string \<rightharpoonup> token list"

fun repeat_count :: "param \<Rightarrow> pyexc + nat" where
  "repeat_count (Text s) = Inl TypeError"
| "repeat_count (Table ks) = Inl TypeError"

definition packet_formats :: "nat \<Rightarrow> formats" where
  "packet_formats n =
     streams_dict
       [Uint 16 # replicate n (Uint 12),
        Uint 16 # replicate 9 (Sint 16),
        Uint 16 # replicate 9 (Sint 16),
        Uint 16 # replicate 4 (Uint 16),
        replicate 20 (Uint 8)]"

definition PACKET_FORMATS :: "pyexc + formats" where
  "PACKET_FORMATS =
     (case getitem PARAMS ''chunk_size'' of
        Inl e \<Rightarrow> Inl e
      | Inr p \<Rightarrow> (case repeat_count p of
                    Inl e \<Rightarrow> Inl e
                  | Inr n \<Rightarrow> Inr (packet_formats n)))"

definition EEG_HANDLE_CH_IDXS :: "int \<rightharpoonup> nat" where
  "EEG_HANDLE_CH_IDXS = map_of [(32, 0), (35, 1), (38, 2), (41, 3), (44, 4)]"

definition EEG_HANDLE_RECEIVE_ORDER :: "int list" where
  "EEG_HANDLE_RECEIVE_ORDER = [44, 41, 38, 32, 35]"

section \<open>Conversion functions\<close>

text \<open>
  \<open>CONVERT_FUNCS\<close> maps a one-dimensional \<open>numpy\<close> array to an array (or to \<open>None\<close> for
  the status stream). The arrays are lists of reals: the eeg rule multiplies an integer
  of at most 12 bits, less 2048, by \<open>0.48828125 = 125 / 256\<close>, which binary floating
  point computes without rounding (lemma \<open>convert_eeg_dyadic\<close>).
\<close>

datatype ndarray = Arr1 "real list" | Arr2 "real list list" | PyNone

fun rows_of :: "nat \<Rightarrow> nat \<Rightarrow> 'a list \<Rightarrow> 'a list list" where
  "rows_of 0 c xs = []"
| "rows_of (Suc r) c xs = take c xs # rows_of r c (drop c xs)"

definition reshape :: "nat \<Rightarrow> nat \<Rightarrow> real list \<Rightarrow> pyexc + real list list" where
  "reshape r c xs = (if length xs = r * c then Inr (rows_of r c xs) else Inl ValueError)"

definition convert_eeg :: "real list \<Rightarrow> pyexc + ndarray" where
  "convert_eeg data = Inr (Arr1 (map (\<lambda>x. 0.48828125 * (x - 2048)) data))"

definition convert_accelerometer :: "real list \<Rightarrow> pyexc + ndarray" where
  "convert_accelerometer data =
     (case reshape 3 3 data of
        Inl e \<Rightarrow> Inl e
      | Inr m \<Rightarrow> Inr (Arr2 (map (map (\<lambda>x. 0.0000610352 * x)) m)))"

definition convert_gyroscope :: "real list \<Rightarrow> pyexc + ndarray" where
  "convert_gyroscope data =
     (case reshape 3 3 data of
        Inl e \<Rightarrow> Inl e
      | Inr m \<Rightarrow> Inr (Arr2 (map (map (\<lambda>x. 0.0074768 * x)) m)))"

definition convert_telemetry :: "real list \<Rightarrow> pyexc + ndarray" where
  "convert_telemetry data =
     (if length data < 4 then Inl IndexError
      else Inr (Arr1 [data ! 0 / 512, 2.2 * data ! 1, data ! 2, data ! 3]))"

definition convert_status :: "real list \<Rightarrow> pyexc + ndarray" where
  "convert_status data = Inr PyNone"

definition CONVERT_FUNCS :: "string \<rightharpoonup> (real list \<Rightarrow> pyexc + ndarray)" where
  "CONVERT_FUNCS =
     streams_dict [convert_eeg, convert_accelerometer, convert_gyroscope,
                   convert_telemetry, convert_status]"

text \<open>\<open>np.array(unpacked[1:], dtype=...)\<close> with a floating dtype.\<close>

definition np_array :: "int list \<Rightarrow> real list" where
  "np_array xs = map real_of_int xs"

section \<open>The handler\<close>

text \<open>
  Modelled from the spec: \<open>BasePacketHandler\<close> (\<open>ble2lsl.devices.device\<close>) is not part of
  the module. Of its state the module uses \<open>_subscriptions\<close>, \<open>_sample_idxs\<close> (one sample
  index per stream; for eeg, one per channel), \<open>_chunks\<close> (one matrix per stream, the
  chunk buffer of the spec's section 3) and \<open>_callback\<close>. The callback belongs to the
  caller (the output callback of section 6): the model records each of its invocations
  in \<open>emitted\<close>, with the arguments as they are at the call. \<open>_message\<close> is the module's
  own field.
\<close>

datatype sidx = Scalar int | Vec "int list"

datatype payload = Chunk "real list list" | Status pyvalue

type_synonym emission = "string \<times> sidx \<times> payload"

record handler =
  subscriptions :: "string set"
  sample_idxs :: "string \<rightharpoonup> sidx"
  chunks :: "string \<rightharpoonup> real list list"
  message :: string
  emitted :: "emission list"

type_synonym outcome = "(pyexc + unit) \<times> handler"

type_synonym evaluator = "string \<Rightarrow> pyexc + pyvalue"

subsection \<open>\<open>_process_status\<close>\<close>

text \<open>
  The status fields are \<open>uint:8\<close>, so \<open>chr\<close> gets a code below 256, which is a \<open>char\<close>.
  \<open>s[:n]\<close> keeps the first \<open>n\<close> characters, or drops the last \<open>-n\<close> when \<open>n\<close> is
  negative. \<open>ast.literal_eval\<close> is the parameter \<open>leval\<close>.
\<close>

definition chr :: "int \<Rightarrow> char" where
  "chr i = char_of (nat i)"

definition slice_to :: "int \<Rightarrow> 'a list \<Rightarrow> 'a list" where
  "slice_to n s = (if 0 \<le> n then take (nat n) s else take (length s - nat (- n)) s)"

definition callback :: "handler \<Rightarrow> emission \<Rightarrow> handler" where
  "callback h e = h\<lparr>emitted := emitted h @ [e]\<rparr>"

definition process_status :: "evaluator \<Rightarrow> handler \<Rightarrow> int list \<Rightarrow> outcome" where
  "process_status leval h unpacked =
     (case unpacked of
        [] \<Rightarrow> (Inl IndexError, h)
      | n # codes \<Rightarrow>
          (let message_chars = map chr codes;
               status_message_partial = slice_to n message_chars;
               h1 = h\<lparr>message := message h @ status_message_partial\<rparr>
           in if status_message_partial = [] then (Inl IndexError, h1)
              else if last status_message_partial = CHR ''}'' then
                (let h2 = h1\<lparr>message := filter (\<lambda>c. c \<noteq> CHR 0x0A) (message h1)\<rparr>
                 in (case leval (message h2) of
                       Inl e \<Rightarrow> (Inl e, h2)
                     | Inr record \<Rightarrow>
                         (Inr (),
                          (callback h2 (''status'', Scalar (- 1), Status record))
                            \<lparr>message := []\<rparr>)))
              else (Inr (), h1)))"

subsection \<open>Writing into \<open>numpy\<close> arrays\<close>

text \<open>
  \<open>a[idx] = v\<close> writes one row and \<open>a[:, :] = v\<close> the whole matrix; \<open>numpy\<close> stretches a
  dimension of length one of \<open>v\<close> and raises \<open>ValueError\<close> when the shapes do not agree,
  \<open>TypeError\<close> for \<open>None\<close> in a floating array.
\<close>

definition ncols :: "real list list \<Rightarrow> nat" where
  "ncols m = (case m of [] \<Rightarrow> 0 | r # _ \<Rightarrow> length r)"

definition stretch :: "nat \<Rightarrow> 'a list \<Rightarrow> pyexc + 'a list" where
  "stretch n v =
     (if length v = n then Inr v
      else if length v = 1 then Inr (replicate n (hd v))
      else Inl ValueError)"

fun as_row :: "ndarray \<Rightarrow> pyexc + real list" where
  "as_row PyNone = Inl TypeError"
| "as_row (Arr1 v) = Inr v"
| "as_row (Arr2 [v]) = Inr v"
| "as_row (Arr2 m) = Inl ValueError"

definition set_row :: "real list list \<Rightarrow> nat \<Rightarrow> ndarray \<Rightarrow> pyexc + real list list" where
  "set_row m idx v =
     (if length m \<le> idx then Inl IndexError
      else (case as_row v of
              Inl e \<Rightarrow> Inl e
            | Inr r \<Rightarrow> (case stretch (length (m ! idx)) r of
                          Inl e \<Rightarrow> Inl e
                        | Inr r' \<Rightarrow> Inr (m[idx := r']))))"

fun as_rows :: "ndarray \<Rightarrow> pyexc + real list list" where
  "as_rows PyNone = Inl TypeError"
| "as_rows (Arr1 v) = Inr [v]"
| "as_rows (Arr2 m) = Inr m"

fun stretch_all :: "nat \<Rightarrow> real list list \<Rightarrow> pyexc + real list list" where
  "stretch_all n [] = Inr []"
| "stretch_all n (r # rs) =
     (case stretch n r of
        Inl e \<Rightarrow> Inl e
      | Inr r' \<Rightarrow> (case stretch_all n rs of Inl e \<Rightarrow> Inl e | Inr rs' \<Rightarrow> Inr (r' # rs')))"

definition set_all :: "real list list \<Rightarrow> ndarray \<Rightarrow> pyexc + real list list" where
  "set_all m v =
     (case as_rows v of
        Inl e \<Rightarrow> Inl e
      | Inr rs \<Rightarrow> (case stretch_all (ncols m) rs of
                     Inl e \<Rightarrow> Inl e
                   | Inr rs' \<Rightarrow> stretch (length m) rs'))"

subsection \<open>\<open>process_packet\<close>\<close>

text \<open>
  Lines 135 to 146 of the module: the part of \<open>process_packet\<close> after the local variable
  \<open>data\<close> is (or, on the status path, is not) assigned. \<open>data\<close> is \<open>None\<close> when unbound.
  In an assignment the right-hand side is evaluated before the target is looked up.
\<close>

definition emit_chunk :: "handler \<Rightarrow> string \<Rightarrow> outcome" where
  "emit_chunk h name =
     (case sample_idxs h name of
        None \<Rightarrow> (Inl (KeyError (StrKey name)), h)
      | Some i \<Rightarrow>
          (case chunks h name of
             None \<Rightarrow> (Inl (KeyError (StrKey name)), h)
           | Some m \<Rightarrow> (Inr (), callback h (name, i, Chunk m))))"

definition store_eeg :: "handler \<Rightarrow> int \<Rightarrow> int list \<Rightarrow> real list option \<Rightarrow> outcome" where
  "store_eeg h handle unpacked data =
     (case EEG_HANDLE_CH_IDXS handle of
        None \<Rightarrow> (Inl (KeyError (IntKey handle)), h)
      | Some idx \<Rightarrow>
     (case unpacked of
        [] \<Rightarrow> (Inl IndexError, h)
      | u0 # _ \<Rightarrow>
     (case sample_idxs h ''eeg'' of
        None \<Rightarrow> (Inl (KeyError (StrKey ''eeg'')), h)
      | Some (Scalar i) \<Rightarrow> (Inl TypeError, h)
      | Some (Vec v) \<Rightarrow>
          if length v \<le> idx then (Inl IndexError, h)
          else
            (let h1 = h\<lparr>sample_idxs := (sample_idxs h)(''eeg'' \<mapsto> Vec (v[idx := u0]))\<rparr>
             in (case CONVERT_FUNCS ''eeg'' of
                   None \<Rightarrow> (Inl (KeyError (StrKey ''eeg'')), h1)
                 | Some f \<Rightarrow>
                (case data of
                   None \<Rightarrow> (Inl (UnboundLocalError ''data''), h1)
                 | Some d \<Rightarrow>
                (case f d of
                   Inl e \<Rightarrow> (Inl e, h1)
                 | Inr converted \<Rightarrow>
                (case chunks h1 ''eeg'' of
                   None \<Rightarrow> (Inl (KeyError (StrKey ''eeg'')), h1)
                 | Some m \<Rightarrow>
                (case set_row m idx converted of
                   Inl e \<Rightarrow> (Inl e, h1)
                 | Inr m' \<Rightarrow>
                     (let h2 = h1\<lparr>chunks := (chunks h1)(''eeg'' \<mapsto> m')\<rparr>
                      in if handle = last EEG_HANDLE_RECEIVE_ORDER
                         then emit_chunk h2 ''eeg''
                         else (Inr (), h2)))))))))))"

definition store_other :: "handler \<Rightarrow> string \<Rightarrow> int list \<Rightarrow> real list option \<Rightarrow> outcome" where
  "store_other h name unpacked data =
     (case unpacked of
        [] \<Rightarrow> (Inl IndexError, h)
      | u0 # _ \<Rightarrow>
          (let h1 = h\<lparr>sample_idxs := (sample_idxs h)(name \<mapsto> Scalar u0)\<rparr>
           in (case CONVERT_FUNCS name of
                 None \<Rightarrow> (Inl (KeyError (StrKey name)), h1)
               | Some f \<Rightarrow>
              (case data of
                 None \<Rightarrow> (Inl (UnboundLocalError ''data''), h1)
               | Some d \<Rightarrow>
              (case f d of
                 Inl e \<Rightarrow> (Inl e, h1)
               | Inr converted \<Rightarrow>
              (case chunks h1 name of
                 None \<Rightarrow> (Inl (KeyError (StrKey name)), h1)
               | Some m \<Rightarrow>
              (case set_all m converted of
                 Inl e \<Rightarrow> (Inl e, h1)
               | Inr m' \<Rightarrow> emit_chunk (h1\<lparr>chunks := (chunks h1)(name \<mapsto> m')\<rparr>) name)))))))"

definition store_chunk ::
  "handler \<Rightarrow> int \<Rightarrow> string \<Rightarrow> int list \<Rightarrow> real list option \<Rightarrow> outcome" where
  "store_chunk h handle name unpacked data =
     (if name = ''eeg'' then store_eeg h handle unpacked data
      else store_other h name unpacked data)"

text \<open>
  Lines 122 to 133, then \<open>store_chunk\<close>. \<open>table\<close> is the table of packet formats that
  line 125 reads. The keyword argument \<open>dtype=PARAMS["numpy_dtypes"][name]\<close> is evaluated
  before \<open>np.array\<close> is called.
\<close>

definition process_packet ::
  "formats \<Rightarrow> evaluator \<Rightarrow> handler \<Rightarrow> int \<Rightarrow> 8 word list \<Rightarrow> outcome" where
  "process_packet table leval h handle packet =
     (case HANDLE_NAMES handle of
        None \<Rightarrow> (Inl (KeyError (IntKey handle)), h)
      | Some name \<Rightarrow>
     (case table name of
        None \<Rightarrow> (Inl (KeyError (StrKey name)), h)
      | Some packet_format \<Rightarrow>
     (case unpack packet packet_format of
        Inl e \<Rightarrow> (Inl e, h)
      | Inr unpacked \<Rightarrow>
          if name \<notin> subscriptions h then (Inr (), h)
          else if name = ''status'' then
            (case process_status leval h unpacked of
               (Inl e, h1) \<Rightarrow> (Inl e, h1)
             | (Inr u, h1) \<Rightarrow> store_chunk h1 handle name unpacked None)
          else
            (case getitem PARAMS ''numpy_dtypes'' of
               Inl e \<Rightarrow> (Inl e, h)
             | Inr dtypes \<Rightarrow>
            (case param_getitem dtypes name of
               Inl e \<Rightarrow> (Inl e, h)
             | Inr dtype \<Rightarrow>
                 store_chunk h handle name unpacked (Some (np_array (tl unpacked))))))))"

subsection \<open>A sequence of notifications\<close>

text \<open>
  Each notification is one call. An exception leaves the call; the handler, with what the
  call had written, takes the next notification.
\<close>

fun feed ::
  "formats \<Rightarrow> evaluator \<Rightarrow> handler \<Rightarrow> (int \<times> 8 word list) list
     \<Rightarrow> (pyexc + unit) list \<times> handler" where
  "feed table leval h [] = ([], h)"
| "feed table leval h ((handle, packet) # ns) =
     (case process_packet table leval h handle packet of
        (r, h1) \<Rightarrow> (case feed table leval h1 ns of (rs, h2) \<Rightarrow> (r # rs, h2)))"

fun feed_status :: "evaluator \<Rightarrow> handler \<Rightarrow> int list list \<Rightarrow> (pyexc + unit) list \<times> handler" where
  "feed_status leval h [] = ([], h)"
| "feed_status leval h (unpacked # us) =
     (case process_status leval h unpacked of
        (r, h1) \<Rightarrow> (case feed_status leval h1 us of (rs, h2) \<Rightarrow> (r # rs, h2)))"

section \<open>A model of \<open>ast.literal_eval\<close> on flat dictionary displays\<close>

text \<open>
  The status records of the device are dictionary displays whose keys and values are
  string literals without escapes, decimal integers and \<open>True\<close>/\<open>False\<close>. On these texts
  \<open>literal_eval\<close> below gives the dictionary \<open>ast.literal_eval\<close> gives: entries in the order
  of their first key, a later value replacing an earlier one under an equal key (Python
  holds \<open>1 == True\<close> and \<open>0 == False\<close>). The text starts with the opening brace. Every
  other text is reported as \<open>SyntaxError\<close>;
  Python accepts some of them (floats, lists, sets, nested displays) and rejects some
  with \<open>ValueError\<close>. The theorems that quantify over the evaluator do not depend on this
  model; it serves where a text has to be evaluated.
\<close>

datatype ltoken = LBrace | RBrace | Colon | Comma | Atom pyvalue

datatype lexstate = Idle | InStr char string | InNum bool string | InWord string

definition ord :: "char \<Rightarrow> nat" where
  "ord c = of_char c"

definition is_digit :: "char \<Rightarrow> bool" where
  "is_digit c = (48 \<le> ord c \<and> ord c \<le> 57)"

definition is_letter :: "char \<Rightarrow> bool" where
  "is_letter c = ((97 \<le> ord c \<and> ord c \<le> 122) \<or> (65 \<le> ord c \<and> ord c \<le> 90))"

definition is_space :: "char \<Rightarrow> bool" where
  "is_space c = (c = CHR '' '' \<or> c = CHR 0x09)"

fun punct :: "char \<Rightarrow> ltoken option" where
  "punct c =
     (if c = CHR ''{'' then Some LBrace
      else if c = CHR ''}'' then Some RBrace
      else if c = CHR '':'' then Some Colon
      else if c = CHR '','' then Some Comma
      else None)"

definition digits_value :: "string \<Rightarrow> int" where
  "digits_value ds = foldl (\<lambda>acc d. 10 * acc + (int (ord d) - 48)) 0 ds"

definition number_token :: "bool \<Rightarrow> string \<Rightarrow> ltoken option" where
  "number_token neg ds =
     (if ds = [] then None
      else if hd ds = CHR ''0'' \<and> 1 < length ds then None
      else Some (Atom (PInt (if neg then - digits_value ds else digits_value ds))))"

definition word_token :: "string \<Rightarrow> ltoken option" where
  "word_token w =
     (if w = ''True'' then Some (Atom (PBool True))
      else if w = ''False'' then Some (Atom (PBool False))
      else None)"

definition cons_token :: "ltoken option \<Rightarrow> ltoken list option \<Rightarrow> ltoken list option" where
  "cons_token t ts =
     (case t of None \<Rightarrow> None | Some x \<Rightarrow> (case ts of None \<Rightarrow> None | Some xs \<Rightarrow> Some (x # xs)))"

fun lex :: "lexstate \<Rightarrow> string \<Rightarrow> ltoken list option" where
  "lex Idle [] = Some []"
| "lex (InStr q acc) [] = None"
| "lex (InNum neg ds) [] = cons_token (number_token neg (rev ds)) (Some [])"
| "lex (InWord w) [] = cons_token (word_token (rev w)) (Some [])"
| "lex Idle (c # cs) =
     (if is_space c then lex Idle cs
      else if punct c \<noteq> None then cons_token (punct c) (lex Idle cs)
      else if c = CHR 0x22 \<or> c = CHR 0x27 then lex (InStr c []) cs
      else if c = CHR ''-'' then lex (InNum True []) cs
      else if is_digit c then lex (InNum False [c]) cs
      else if is_letter c then lex (InWord [c]) cs
      else None)"
| "lex (InStr q acc) (c # cs) =
     (if c = q then cons_token (Some (Atom (PStr (rev acc)))) (lex Idle cs)
      else if c = CHR 0x5C \<or> ord c < 32 then None
      else lex (InStr q (c # acc)) cs)"
| "lex (InNum neg ds) (c # cs) =
     (if is_digit c then lex (InNum neg (c # ds)) cs
      else if is_space c then cons_token (number_token neg (rev ds)) (lex Idle cs)
      else if punct c \<noteq> None
        then cons_token (number_token neg (rev ds)) (cons_token (punct c) (lex Idle cs))
      else None)"
| "lex (InWord w) (c # cs) =
     (if is_letter c then lex (InWord (c # w)) cs
      else if is_space c then cons_token (word_token (rev w)) (lex Idle cs)
      else if punct c \<noteq> None
        then cons_token (word_token (rev w)) (cons_token (punct c) (lex Idle cs))
      else None)"

fun py_eq :: "pyvalue \<Rightarrow> pyvalue \<Rightarrow> bool" where
  "py_eq (PInt i) (PBool b) = (i = (if b then 1 else 0))"
| "py_eq (PBool b) (PInt i) = (i = (if b then 1 else 0))"
| "py_eq x y = (x = y)"

fun dict_set :: "(pyvalue \<times> pyvalue) list \<Rightarrow> pyvalue \<Rightarrow> pyvalue \<Rightarrow> (pyvalue \<times> pyvalue) list" where
  "dict_set [] k v = [(k, v)]"
| "dict_set ((k', v') # d) k v =
     (if py_eq k' k then (k', v) # d else (k', v') # dict_set d k v)"

fun parse_entries ::
  "(pyvalue \<times> pyvalue) list \<Rightarrow> ltoken list \<Rightarrow> (pyvalue \<times> pyvalue) list option" where
  "parse_entries d [Atom k, Colon, Atom v, RBrace] = Some (dict_set d k v)"
| "parse_entries d (Atom k # Colon # Atom v # Comma # ts) = parse_entries (dict_set d k v) ts"
| "parse_entries d ts = None"

definition literal_eval :: evaluator where
  "literal_eval s =
     (case lex Idle s of
        None \<Rightarrow> Inl SyntaxError
      | Some ts \<Rightarrow>
          (if take 1 s \<noteq> ''{'' then Inl SyntaxError
           else (case ts of
                   [LBrace, RBrace] \<Rightarrow> Inr (PDict [])
                 | LBrace # es \<Rightarrow>
                     (case parse_entries [] es of
                        None \<Rightarrow> Inl SyntaxError
                      | Some d \<Rightarrow> Inr (PDict d))
                 | _ \<Rightarrow> Inl SyntaxError)))"

section \<open>A handler at construction\<close>

text \<open>The entries \<open>channel_count\<close> and \<open>chunk_size\<close> of \<open>PARAMS["streams"]\<close>.\<close>

definition channel_count :: "string \<rightharpoonup> nat" where
  "channel_count = streams_dict [5, 3, 3, 4, 1]"

definition chunk_size :: "string \<rightharpoonup> nat" where
  "chunk_size = streams_dict [12, 3, 3, 1, 1]"

text \<open>
  Modelled from the spec: \<open>BasePacketHandler.__init__\<close> is not part of the module. Each
  stream has a chunk buffer of \<open>channel_count\<close> rows and \<open>chunk_size\<close> columns (spec,
  section 3), here of zeros, and a sample index \<open>-1\<close>, one per channel for eeg.
  \<open>PacketHandler.__init__\<close> itself sets the status message to the empty string.
\<close>

definition PacketHandler :: "string set \<Rightarrow> handler" where
  "PacketHandler subs =
     \<lparr>subscriptions = subs,
      sample_idxs = (\<lambda>name. case channel_count name of
                        None \<Rightarrow> None
                      | Some n \<Rightarrow> Some (if name = ''eeg'' then Vec (replicate n (- 1))
                                         else Scalar (- 1))),
      chunks = (\<lambda>name. case (channel_count name, chunk_size name) of
                   (Some r, Some c) \<Rightarrow> Some (replicate r (replicate c 0))
                 | _ \<Rightarrow> None),
      message = [],
      emitted = []\<rparr>"

text \<open>A status fragment: the length field, the characters, and the padding of the packet.\<close>

definition fragment :: "string \<Rightarrow> 8 word list \<Rightarrow> int list" where
  "fragment s pad = int (length s) # map (\<lambda>c. int (ord c)) s @ map uint pad"

text \<open>Whether the valid content of a fragment is not empty and ends in a closing brace.\<close>

definition closes :: "int list \<Rightarrow> bool" where
  "closes unpacked =
     (case unpacked of
        [] \<Rightarrow> False
      | n # codes \<Rightarrow>
          slice_to n (map chr codes) \<noteq> [] \<and> last (slice_to n (map chr codes)) = CHR ''}'')"

text \<open>The text \<open>{"a": 1}\<close>: eight characters, the double quote being character 0x22.\<close>

definition record_text :: string where
  "record_text =
     [CHR ''{'', CHR 0x22, CHR ''a'', CHR 0x22, CHR '':'', CHR '' '', CHR ''1'', CHR ''}'']"

section \<open>Facts about decoding and the tables\<close>

lemma length_Bits: "length (Bits packet) = 8 * length packet"
  by (induction packet) (simp_all add: Bits_def byte_bits_def)

lemma unpack_bits_short:
  "length bits < format_bits fmt \<Longrightarrow> unpack_bits bits fmt = Inl ReadError"
proof (induction fmt arbitrary: bits)
  case Nil
  then show ?case by (simp add: format_bits_def)
next
  case (Cons t ts)
  show ?case
  proof (cases "length bits < token_width t")
    case True
    then show ?thesis by simp
  next
    case False
    with Cons.prems have "length (drop (token_width t) bits) < format_bits ts"
      by (simp add: format_bits_def)
    then have "unpack_bits (drop (token_width t) bits) ts = Inl ReadError"
      by (rule Cons.IH)
    with False show ?thesis by simp
  qed
qed

lemma unpack_bits_ok:
  "format_bits fmt \<le> length bits \<Longrightarrow>
     \<exists>vs. unpack_bits bits fmt = Inr vs \<and> length vs = length fmt"
proof (induction fmt arbitrary: bits)
  case Nil
  then show ?case by simp
next
  case (Cons t ts)
  from Cons.prems have w: "token_width t \<le> length bits"
    and r: "format_bits ts \<le> length (drop (token_width t) bits)"
    by (simp_all add: format_bits_def)
  from Cons.IH [OF r] obtain vs where
    "unpack_bits (drop (token_width t) bits) ts = Inr vs" "length vs = length ts"
    by blast
  with w show ?case by simp
qed

lemma unpack_bits_append:
  "format_bits fmt \<le> length bits \<Longrightarrow> unpack_bits (bits @ extra) fmt = unpack_bits bits fmt"
proof (induction fmt arbitrary: bits)
  case Nil
  then show ?case by simp
next
  case (Cons t ts)
  from Cons.prems have w: "token_width t \<le> length bits"
    and r: "format_bits ts \<le> length (drop (token_width t) bits)"
    by (simp_all add: format_bits_def)
  from Cons.IH [OF r] w show ?case by (simp split: sum.split)
qed

lemma unpack_short:
  "8 * length packet < format_bits fmt \<Longrightarrow> unpack packet fmt = Inl ReadError"
  by (simp add: unpack_def unpack_bits_short length_Bits)

lemma unpack_ok:
  "format_bits fmt \<le> 8 * length packet \<Longrightarrow>
     \<exists>vs. unpack packet fmt = Inr vs \<and> length vs = length fmt"
  by (simp add: unpack_def unpack_bits_ok length_Bits)

lemma unpack_append:
  "format_bits fmt \<le> 8 * length packet \<Longrightarrow> unpack (packet @ extra) fmt = unpack packet fmt"
  by (simp add: unpack_def Bits_def unpack_bits_append length_Bits [unfolded Bits_def])

lemma HANDLE_NAMES_streams: "HANDLE_NAMES handle = Some name \<Longrightarrow> name \<in> set STREAMS"
  by (auto simp: HANDLE_NAMES_def STREAMS_def split: if_splits)

lemma PARAMS_numpy_dtypes:
  "getitem PARAMS ''numpy_dtypes'' = Inl (KeyError (StrKey ''numpy_dtypes''))"
  by (simp add: getitem_def PARAMS_def)

lemma PACKET_FORMATS_raises: "PACKET_FORMATS = Inl (KeyError (StrKey ''chunk_size''))"
  by (simp add: PACKET_FORMATS_def getitem_def PARAMS_def)

lemma packet_formats_status: "packet_formats n ''status'' = Some (replicate 20 (Uint 8))"
  by (simp add: packet_formats_def streams_dict_def STREAMS_def)

lemma packet_formats_telemetry:
  "packet_formats n ''telemetry'' = Some (Uint 16 # replicate 4 (Uint 16))"
  by (simp add: packet_formats_def streams_dict_def STREAMS_def)

lemma packet_formats_accelerometer:
  "packet_formats n ''accelerometer'' = Some (Uint 16 # replicate 9 (Sint 16))"
  by (simp add: packet_formats_def streams_dict_def STREAMS_def)

lemma packet_formats_eeg: "packet_formats n ''eeg'' = Some (Uint 16 # replicate n (Uint 12))"
  by (simp add: packet_formats_def streams_dict_def STREAMS_def)

lemma CONVERT_FUNCS_status: "CONVERT_FUNCS ''status'' = Some convert_status"
  by (simp add: CONVERT_FUNCS_def streams_dict_def STREAMS_def)

lemma eeg_handles:
  "HANDLE_NAMES 44 = Some ''eeg''" "HANDLE_NAMES 41 = Some ''eeg''" "HANDLE_NAMES 38 = Some ''eeg''"
  "HANDLE_NAMES 32 = Some ''eeg''" "HANDLE_NAMES 35 = Some ''eeg''"
  by (simp_all add: HANDLE_NAMES_def)

lemma format_bits_eeg: "format_bits (Uint 16 # replicate 12 (Uint 12)) = 160"
  by (simp add: format_bits_def eval_nat_numeral)

lemma format_bits_status: "format_bits (replicate 20 (Uint 8)) = 160"
  by (simp add: format_bits_def eval_nat_numeral)

lemma format_bits_accelerometer: "format_bits (Uint 16 # replicate 9 (Sint 16)) = 160"
  by (simp add: format_bits_def eval_nat_numeral)

lemma format_bits_telemetry: "format_bits (Uint 16 # replicate 4 (Uint 16)) = 80"
  by (simp add: format_bits_def eval_nat_numeral)

lemma message_PacketHandler: "message (PacketHandler subs) = []"
  by (simp add: PacketHandler_def)

lemma emitted_PacketHandler: "emitted (PacketHandler subs) = []"
  by (simp add: PacketHandler_def)

lemma subscriptions_PacketHandler: "subscriptions (PacketHandler subs) = subs"
  by (simp add: PacketHandler_def)

section \<open>Facts about the handler\<close>

text \<open>
  A subscribed stream other than status: the call ends at the table, at the decoder or,
  when the packet decodes, at the lookup of \<open>"numpy_dtypes"\<close> in \<open>PARAMS\<close>; in each case
  with the handler as it was.
\<close>

lemma signal_stream_outcome:
  assumes "HANDLE_NAMES handle = Some name" and "name \<in> subscriptions h"
    and "name \<noteq> ''status''"
  shows "process_packet table leval h handle packet =
           (Inl (case table name of
                   None \<Rightarrow> KeyError (StrKey name)
                 | Some fmt \<Rightarrow>
                     if 8 * length packet < format_bits fmt then ReadError
                     else KeyError (StrKey ''numpy_dtypes'')), h)"
proof (cases "table name")
  case None
  with assms show ?thesis by (simp add: process_packet_def)
next
  case (Some fmt)
  show ?thesis
  proof (cases "8 * length packet < format_bits fmt")
    case True
    then have "unpack packet fmt = Inl ReadError" by (rule unpack_short)
    with assms Some True show ?thesis by (simp add: process_packet_def)
  next
    case False
    then have "format_bits fmt \<le> 8 * length packet" by simp
    then obtain vs where "unpack packet fmt = Inr vs" using unpack_ok by blast
    with assms Some False show ?thesis by (simp add: process_packet_def PARAMS_numpy_dtypes)
  qed
qed

lemma eeg_packet_raises:
  assumes "HANDLE_NAMES handle = Some ''eeg''" and "''eeg'' \<in> subscriptions h"
  shows "\<exists>e. process_packet table leval h handle packet = (Inl e, h)"
  using signal_stream_outcome [OF assms, of table leval packet] by simp

lemma eeg_packet_outcome:
  assumes "HANDLE_NAMES handle = Some ''eeg''" and "''eeg'' \<in> subscriptions h"
    and "table ''eeg'' = Some fmt" and "format_bits fmt \<le> 8 * length packet"
  shows "process_packet table leval h handle packet =
           (Inl (KeyError (StrKey ''numpy_dtypes'')), h)"
  using signal_stream_outcome [OF assms(1,2), of table leval packet] assms(3,4) by simp

lemma process_status_ok_nonempty:
  "process_status leval h unpacked = (Inr u, h1) \<Longrightarrow> unpacked \<noteq> []"
  by (auto simp: process_status_def)

lemma chr_ord: "chr (int (ord c)) = c"
  by (simp add: chr_def ord_def)

lemma fragment_content:
  "slice_to (int (length s)) (map chr (map (\<lambda>c. int (ord c)) s @ map uint pad)) = s"
  by (simp add: slice_to_def chr_ord comp_def)

lemma process_status_open:
  assumes "s \<noteq> []" and "last s \<noteq> CHR ''}''"
  shows "process_status leval h (fragment s pad) = (Inr (), h\<lparr>message := message h @ s\<rparr>)"
  unfolding process_status_def fragment_def list.case Let_def fragment_content
  using assms by simp

lemma process_status_close:
  assumes "s \<noteq> []" and "last s = CHR ''}''"
    and "leval (filter (\<lambda>c. c \<noteq> CHR 0x0A) (message h @ s)) = Inr v"
  shows "process_status leval h (fragment s pad) =
           (Inr (), h\<lparr>message := [], emitted := emitted h @ [(''status'', Scalar (- 1), Status v)]\<rparr>)"
  unfolding process_status_def fragment_def list.case Let_def fragment_content
  using assms by (simp add: callback_def)

lemma literal_eval_record_text: "literal_eval record_text = Inr (PDict [(PStr ''a'', PInt 1)])"
  by code_simp

lemma record_text_split:
  assumes "0 < k" and "k < 8"
  shows "take k record_text \<noteq> [] \<and> last (take k record_text) \<noteq> CHR ''}'' \<and>
         drop k record_text \<noteq> [] \<and> last (drop k record_text) = CHR ''}'' \<and>
         filter (\<lambda>c. c \<noteq> CHR 0x0A) (take k record_text @ drop k record_text) = record_text"
proof -
  from assms have "k = 1 \<or> k = 2 \<or> k = 3 \<or> k = 4 \<or> k = 5 \<or> k = 6 \<or> k = 7" by arith
  then show ?thesis by (elim disjE) (simp_all add: record_text_def)
qed

lemma process_status_not_closing:
  "\<not> closes unpacked \<Longrightarrow> emitted (snd (process_status leval h unpacked)) = emitted h"
  by (auto simp: process_status_def closes_def Let_def split: list.splits)

lemma feed_status_not_closing:
  "\<forall>u \<in> set us. \<not> closes u \<Longrightarrow> emitted (snd (feed_status leval h us)) = emitted h"
proof (induction us arbitrary: h)
  case Nil
  then show ?case by simp
next
  case (Cons u us)
  obtain r h1 where p: "process_status leval h u = (r, h1)" by (cases "process_status leval h u")
  from Cons.prems have "\<not> closes u" by simp
  then have "emitted (snd (process_status leval h u)) = emitted h"
    by (rule process_status_not_closing)
  with p have e: "emitted h1 = emitted h" by simp
  from Cons.prems have "\<forall>u \<in> set us. \<not> closes u" by simp
  then have "emitted (snd (feed_status leval h1 us)) = emitted h1" by (rule Cons.IH)
  with p e show ?case by (auto split: prod.splits)
qed

lemma convert_eeg_dyadic:
  assumes "0 \<le> raw" and "raw < 4096"
  shows "\<exists>k::int. 0.48828125 * (real_of_int raw - 2048) = real_of_int k / 256 \<and> \<bar>k\<bar> < 2 ^ 24"
proof (intro exI conjI)
  show "0.48828125 * (real_of_int raw - 2048) = real_of_int (125 * (raw - 2048)) / 256"
    by simp
  from assms show "\<bar>125 * (raw - 2048)\<bar> < 2 ^ 24" by simp
qed

text \<open>
  Lines 135 to 141 on their own, with \<open>data\<close> bound: a notification from handle 35, the
  last of \<open>EEG_HANDLE_RECEIVE_ORDER\<close>, invokes the callback whatever the other channels
  hold; here the four other rows are still the zeros of construction. Through
  \<open>process_packet\<close> these lines are not reached (lemma \<open>signal_stream_outcome\<close>).
\<close>

lemma last_handle_emits_unfilled_chunk:
  "fst (store_eeg (PacketHandler {''eeg''}) 35 [7, 4095, 4095, 4095, 4095, 4095, 4095, 4095, 4095, 4095, 4095, 4095, 4095]
     (Some (np_array [4095, 4095, 4095, 4095, 4095, 4095, 4095, 4095, 4095, 4095, 4095, 4095]))) = Inr () \<and>
   map (\<lambda>(name, i, p). (name, i)) (emitted (snd (store_eeg (PacketHandler {''eeg''}) 35 [7, 4095, 4095, 4095, 4095, 4095, 4095, 4095, 4095, 4095, 4095, 4095, 4095]
     (Some (np_array [4095, 4095, 4095, 4095, 4095, 4095, 4095, 4095, 4095, 4095, 4095, 4095])))))
    = [(''eeg'', Vec [- 1, 7, - 1, - 1, - 1])]"
  by code_simp

section \<open>The entry point and unknown sources\<close>

text \<open>
  Claim C4. A notification whose handle has no entry in \<open>HANDLE_NAMES\<close> makes
  \<open>process_packet\<close> fail at its first statement with the \<open>KeyError\<close> of that lookup (the
  unknown-source error), whatever the table of packet formats. The callback is not
  invoked and no part of the handler changes, so the failure is confined to the one
  call: the notifications that follow are processed as if the unknown one had not
  arrived.
\<close>

theorem unknown_source_raises_KeyError:
  assumes "handle \<notin> dom HANDLE_NAMES"
  shows "process_packet table leval h handle packet = (Inl (KeyError (IntKey handle)), h) \<and>
         feed table leval h ((handle, packet) # ns) =
           (Inl (KeyError (IntKey handle)) # fst (feed table leval h ns),
            snd (feed table leval h ns))"
proof -
  from assms have "HANDLE_NAMES handle = None" by (simp add: domIff)
  then have "process_packet table leval h handle packet = (Inl (KeyError (IntKey handle)), h)"
    by (simp add: process_packet_def)
  then show ?thesis by (simp split: prod.splits)
qed

theorem unknown_source_raises_KeyError_witness:
  "(99::int) \<notin> dom HANDLE_NAMES \<and>
   process_packet (packet_formats 12) literal_eval (PacketHandler {''eeg''}) 99 [1, 2, 3] =
     (Inl (KeyError (IntKey 99)), PacketHandler {''eeg''}) \<and>
   emitted (PacketHandler {''eeg''}) = [] \<and>
   feed (packet_formats 12) literal_eval (PacketHandler {''eeg''}) [(99, [1, 2, 3])] =
     ([Inl (KeyError (IntKey 99))], PacketHandler {''eeg''})"
proof -
  have a: "(99::int) \<notin> dom HANDLE_NAMES"
    by (simp add: HANDLE_NAMES_def domIff)
  from unknown_source_raises_KeyError [OF a, of "packet_formats 12" literal_eval
      "PacketHandler {''eeg''}" "[1, 2, 3]" "[]"]
    a show ?thesis
    by (simp add: emitted_PacketHandler)
qed

section \<open>Unsubscribed streams\<close>

text \<open>
  Claim C8. For a notification whose stream is not subscribed, \<open>process_packet\<close> looks the
  format up and decodes the packet before it tests the subscription: with the stream's
  format in the table, the call raises \<open>ReadError\<close> when the packet is shorter than the
  format and returns otherwise. Whatever the table and the packet, it does not invoke
  the callback, and it leaves the chunk buffers, the sample indices and the status
  message as they were.
\<close>

theorem unsubscribed_stream_untouched:
  assumes "HANDLE_NAMES handle = Some name" and "name \<notin> subscriptions h"
  shows "process_packet table leval h handle packet =
           ((case table name of
               None \<Rightarrow> Inl (KeyError (StrKey name))
             | Some fmt \<Rightarrow>
                 if 8 * length packet < format_bits fmt then Inl ReadError else Inr ()),
            h)"
proof (cases "table name")
  case None
  with assms show ?thesis by (simp add: process_packet_def)
next
  case (Some fmt)
  show ?thesis
  proof (cases "8 * length packet < format_bits fmt")
    case True
    then have "unpack packet fmt = Inl ReadError" by (rule unpack_short)
    with assms Some True show ?thesis by (simp add: process_packet_def)
  next
    case False
    then have "format_bits fmt \<le> 8 * length packet" by simp
    then obtain vs where "unpack packet fmt = Inr vs" using unpack_ok by blast
    with assms Some False show ?thesis by (simp add: process_packet_def)
  qed
qed

theorem unsubscribed_stream_untouched_witness:
  "HANDLE_NAMES 26 = Some ''telemetry'' \<and>
   ''telemetry'' \<notin> subscriptions (PacketHandler {''eeg''}) \<and>
   packet_formats 12 ''telemetry'' = Some (Uint 16 # replicate 4 (Uint 16)) \<and>
   process_packet (packet_formats 12) literal_eval (PacketHandler {''eeg''}) 26
       [0, 7, 0, 0, 0, 0, 0, 0, 0, 0] =
     (Inr (), PacketHandler {''eeg''}) \<and>
   process_packet (packet_formats 12) literal_eval (PacketHandler {''eeg''}) 26 [0, 7, 0] =
     (Inl ReadError, PacketHandler {''eeg''})"
proof -
  have a: "HANDLE_NAMES 26 = Some ''telemetry''" by (simp add: HANDLE_NAMES_def)
  have b: "''telemetry'' \<notin> subscriptions (PacketHandler {''eeg''})"
    by (simp add: PacketHandler_def)
  from unsubscribed_stream_untouched [OF a b, of "packet_formats 12" literal_eval
      "[0, 7, 0, 0, 0, 0, 0, 0, 0, 0]"]
    unsubscribed_stream_untouched [OF a b, of "packet_formats 12" literal_eval "[0, 7, 0]"]
  show ?thesis using a b by (simp add: packet_formats_telemetry format_bits_telemetry)
qed

section \<open>Status fragments\<close>

text \<open>
  Claim C10. A status fragment whose length field is 0 makes \<open>_process_status\<close> raise
  \<open>IndexError\<close>: its valid content is the empty string, whose last character the
  terminator test reads. Nothing is appended and nothing is emitted.
\<close>

theorem empty_status_fragment_raises_IndexError:
  "process_status leval h (0 # codes) = (Inl IndexError, h)"
  by (simp add: process_status_def slice_to_def)

text \<open>
  Claim C3, as amended. When the valid content of a status fragment ends in the closing
  brace and the evaluator rejects the accumulated text, \<open>_process_status\<close> fails with the
  evaluator's exception and does not invoke the callback; the accumulated text, with its
  line breaks removed, stays in the message: it is not reset, and it is not empty.
\<close>

theorem rejected_status_text_retained:
  assumes "closes (n # codes)"
    and "leval (filter (\<lambda>c. c \<noteq> CHR 0x0A) (message h @ slice_to n (map chr codes))) = Inl e"
  shows "process_status leval h (n # codes) =
           (Inl e, h\<lparr>message := filter (\<lambda>c. c \<noteq> CHR 0x0A)
                                    (message h @ slice_to n (map chr codes))\<rparr>) \<and>
         filter (\<lambda>c. c \<noteq> CHR 0x0A) (message h @ slice_to n (map chr codes)) \<noteq> []"
proof -
  let ?p = "slice_to n (map chr codes)"
  from assms(1) have p: "?p \<noteq> []" "last ?p = CHR ''}''" by (simp_all add: closes_def)
  then have "CHR ''}'' \<in> set ?p" using last_in_set by metis
  then have "CHR ''}'' \<in> set (filter (\<lambda>c. c \<noteq> CHR 0x0A) (message h @ ?p))" by simp
  then have ne: "filter (\<lambda>c. c \<noteq> CHR 0x0A) (message h @ ?p) \<noteq> []" by (metis empty_iff empty_set)
  have "process_status leval h (n # codes) =
           (Inl e, h\<lparr>message := filter (\<lambda>c. c \<noteq> CHR 0x0A) (message h @ ?p)\<rparr>)"
    unfolding process_status_def list.case Let_def using p assms(2) by simp
  with ne show ?thesis by simp
qed

theorem rejected_status_text_retained_witness:
  "closes [1, 125, 0, 0, 0, 0, 0, 0, 0, 0, 0, 0, 0, 0, 0, 0, 0, 0, 0, 0] \<and>
   literal_eval ''}'' = Inl SyntaxError \<and>
   process_status literal_eval (PacketHandler {''status''})
       [1, 125, 0, 0, 0, 0, 0, 0, 0, 0, 0, 0, 0, 0, 0, 0, 0, 0, 0, 0] =
     (Inl SyntaxError, (PacketHandler {''status''})\<lparr>message := ''}''\<rparr>)"
proof -
  let ?c = "[125, 0, 0, 0, 0, 0, 0, 0, 0, 0, 0, 0, 0, 0, 0, 0, 0, 0, 0] :: int list"
  have a: "closes (1 # ?c)" by code_simp
  have s: "filter (\<lambda>c. c \<noteq> CHR 0x0A)
             (message (PacketHandler {''status''}) @ slice_to 1 (map chr ?c)) = ''}''"
    by code_simp
  have b: "literal_eval ''}'' = Inl SyntaxError" by code_simp
  from rejected_status_text_retained [of 1 ?c literal_eval "PacketHandler {''status''}" SyntaxError]
  show ?thesis using a b s by simp
qed

text \<open>
  Claim C3 as stated fails: after the one-character fragment \<open>}\<close>, which
  \<open>ast.literal_eval\<close> rejects with \<open>SyntaxError\<close>, the message is \<open>}\<close>, not the empty
  string.
\<close>

theorem rejected_status_text_counterexample:
  "closes [1, 125, 0, 0, 0, 0, 0, 0, 0, 0, 0, 0, 0, 0, 0, 0, 0, 0, 0, 0] \<and>
   fst (process_status literal_eval (PacketHandler {''status''})
          [1, 125, 0, 0, 0, 0, 0, 0, 0, 0, 0, 0, 0, 0, 0, 0, 0, 0, 0, 0]) = Inl SyntaxError \<and>
   message (snd (process_status literal_eval (PacketHandler {''status''})
          [1, 125, 0, 0, 0, 0, 0, 0, 0, 0, 0, 0, 0, 0, 0, 0, 0, 0, 0, 0])) = ''}'' \<and>
   message (snd (process_status literal_eval (PacketHandler {''status''})
          [1, 125, 0, 0, 0, 0, 0, 0, 0, 0, 0, 0, 0, 0, 0, 0, 0, 0, 0, 0])) \<noteq> []"
  by code_simp

text \<open>
  Claim C6. From an empty message, the text \<open>{"a": 1}\<close> split at any point into two
  fragments gives two calls that return, one invocation of the callback, with the stream
  name \<open>status\<close>, the sample index \<open>-1\<close> and the dictionary \<open>{"a": 1}\<close>, and an empty
  message afterwards. A sequence of fragments none of whose valid content ends in a
  closing brace invokes the callback not at all, whatever the evaluator.
\<close>

theorem status_reassembly:
  shows "(0 < k \<and> k < 8 \<and> message h = [] \<longrightarrow>
            feed_status literal_eval h
                [fragment (take k record_text) pad1, fragment (drop k record_text) pad2] =
              ([Inr (), Inr ()],
               h\<lparr>message := [],
                 emitted := emitted h @
                   [(''status'', Scalar (- 1), Status (PDict [(PStr ''a'', PInt 1)]))]\<rparr>)) \<and>
         ((\<forall>u \<in> set us. \<not> closes u) \<longrightarrow>
            emitted (snd (feed_status leval h us)) = emitted h)"
proof (intro conjI impI)
  assume a: "0 < k \<and> k < 8 \<and> message h = []"
  then have s: "take k record_text \<noteq> []" "last (take k record_text) \<noteq> CHR ''}''"
    "drop k record_text \<noteq> []" "last (drop k record_text) = CHR ''}''"
    "filter (\<lambda>c. c \<noteq> CHR 0x0A) (take k record_text @ drop k record_text) = record_text"
    using record_text_split [of k] by simp_all
  let ?h1 = "h\<lparr>message := message h @ take k record_text\<rparr>"
  have 1: "process_status literal_eval h (fragment (take k record_text) pad1) = (Inr (), ?h1)"
    using s(1,2) by (rule process_status_open)
  have "literal_eval (filter (\<lambda>c. c \<noteq> CHR 0x0A) (message ?h1 @ drop k record_text))
          = Inr (PDict [(PStr ''a'', PInt 1)])"
    using a s(5) literal_eval_record_text by simp
  with s(3,4) have 2: "process_status literal_eval ?h1 (fragment (drop k record_text) pad2) =
      (Inr (), ?h1\<lparr>message := [],
         emitted := emitted ?h1 @ [(''status'', Scalar (- 1), Status (PDict [(PStr ''a'', PInt 1)]))]\<rparr>)"
    by (rule process_status_close)
  from 1 2 show "feed_status literal_eval h
                [fragment (take k record_text) pad1, fragment (drop k record_text) pad2] =
              ([Inr (), Inr ()],
               h\<lparr>message := [],
                 emitted := emitted h @
                   [(''status'', Scalar (- 1), Status (PDict [(PStr ''a'', PInt 1)]))]\<rparr>)"
    by simp
next
  assume "\<forall>u \<in> set us. \<not> closes u"
  then show "emitted (snd (feed_status leval h us)) = emitted h"
    by (rule feed_status_not_closing)
qed

theorem status_reassembly_witness:
  "(0::nat) < 5 \<and> (5::nat) < 8 \<and> message (PacketHandler {''status''}) = [] \<and>
   fragment (take 5 record_text) [0, 0] = [5, 123, 34, 97, 34, 58, 0, 0] \<and>
   fragment (drop 5 record_text) [0] = [3, 32, 49, 125, 0] \<and>
   feed_status literal_eval (PacketHandler {''status''})
       [[5, 123, 34, 97, 34, 58, 0, 0], [3, 32, 49, 125, 0]] =
     ([Inr (), Inr ()],
      (PacketHandler {''status''})\<lparr>message := [],
         emitted := emitted (PacketHandler {''status''}) @
           [(''status'', Scalar (- 1), Status (PDict [(PStr ''a'', PInt 1)]))]\<rparr>) \<and>
   \<not> closes [5, 123, 34, 97, 34, 58, 0, 0] \<and> \<not> closes [2, 32, 49, 125, 0] \<and>
   emitted (snd (feed_status literal_eval (PacketHandler {''status''})
       [[5, 123, 34, 97, 34, 58, 0, 0], [2, 32, 49, 125, 0]])) = []"
proof -
  have a: "(0::nat) < 5 \<and> (5::nat) < 8 \<and> message (PacketHandler {''status''}) = []"
    by (simp add: message_PacketHandler)
  have f1: "fragment (take 5 record_text) [0, 0] = [5, 123, 34, 97, 34, 58, 0, 0]" by code_simp
  have f2: "fragment (drop 5 record_text) [0] = [3, 32, 49, 125, 0]" by code_simp
  have b: "\<forall>u \<in> set [[5, 123, 34, 97, 34, 58, 0, 0], [2, 32, 49, 125, 0]]. \<not> closes u"
    by code_simp
  from status_reassembly [of 5 "PacketHandler {''status''}" "[0, 0]" "[0]"
      "[[5, 123, 34, 97, 34, 58, 0, 0], [2, 32, 49, 125, 0]]" literal_eval]
  show ?thesis using a b f1 f2 by (simp add: emitted_PacketHandler)
qed

section \<open>Packets of the wrong length\<close>

text \<open>
  Claim C2, as amended. For every table of packet formats, every stream with a format in
  it and every packet shorter than that format, \<open>process_packet\<close> fails with
  \<open>ReadError\<close>, the decoder's error, with every part of the handler unchanged. A packet
  longer than the format is not refused: the bytes after the format's length are
  ignored, and the call does what it does on the leading bytes.
\<close>

theorem short_packet_raises_ReadError:
  assumes "HANDLE_NAMES handle = Some name" and "table name = Some fmt"
  shows "(8 * length packet < format_bits fmt \<longrightarrow>
            process_packet table leval h handle packet = (Inl ReadError, h)) \<and>
         (format_bits fmt \<le> 8 * length packet \<longrightarrow>
            process_packet table leval h handle (packet @ extra) =
              process_packet table leval h handle packet)"
proof (intro conjI impI)
  assume "8 * length packet < format_bits fmt"
  then have "unpack packet fmt = Inl ReadError" by (rule unpack_short)
  with assms show "process_packet table leval h handle packet = (Inl ReadError, h)"
    by (simp add: process_packet_def)
next
  assume "format_bits fmt \<le> 8 * length packet"
  then have "unpack (packet @ extra) fmt = unpack packet fmt" by (rule unpack_append)
  with assms show "process_packet table leval h handle (packet @ extra) =
      process_packet table leval h handle packet"
    by (simp add: process_packet_def)
qed

theorem short_packet_raises_ReadError_witness:
  "HANDLE_NAMES 14 = Some ''status'' \<and>
   packet_formats 12 ''status'' = Some (replicate 20 (Uint 8)) \<and>
   8 * length [1, 97 :: 8 word] < format_bits (replicate 20 (Uint 8)) \<and>
   process_packet (packet_formats 12) literal_eval (PacketHandler {''status''}) 14 [1, 97] =
     (Inl ReadError, PacketHandler {''status''}) \<and>
   format_bits (replicate 20 (Uint 8))
     \<le> 8 * length ([1, 97, 0, 0, 0, 0, 0, 0, 0, 0, 0, 0, 0, 0, 0, 0, 0, 0, 0, 0] :: 8 word list) \<and>
   process_packet (packet_formats 12) literal_eval (PacketHandler {''status''}) 14
       ([1, 97, 0, 0, 0, 0, 0, 0, 0, 0, 0, 0, 0, 0, 0, 0, 0, 0, 0, 0] @ [255]) =
     process_packet (packet_formats 12) literal_eval (PacketHandler {''status''}) 14
       [1, 97, 0, 0, 0, 0, 0, 0, 0, 0, 0, 0, 0, 0, 0, 0, 0, 0, 0, 0]"
proof -
  have a: "HANDLE_NAMES 14 = Some ''status''" by (simp add: HANDLE_NAMES_def)
  have t: "packet_formats 12 ''status'' = Some (replicate 20 (Uint 8))"
    by (rule packet_formats_status)
  from short_packet_raises_ReadError [where table = "packet_formats 12", OF a t,
      of "[1, 97]" literal_eval "PacketHandler {''status''}"]
    short_packet_raises_ReadError [where table = "packet_formats 12", OF a t,
      of "[1, 97, 0, 0, 0, 0, 0, 0, 0, 0, 0, 0, 0, 0, 0, 0, 0, 0, 0, 0]" literal_eval
         "PacketHandler {''status''}" "[255]"]
  show ?thesis using a t by (simp add: format_bits_status)
qed

text \<open>
  Claim C2 as stated fails on a status packet of 21 bytes, one more than the status
  format of line 97 (twenty \<open>uint:8\<close>, the entry of every \<open>packet_formats n\<close>): for an
  unsubscribed stream the call returns without error; for the subscribed stream it
  appends \<open>a\<close> to the message and writes the sample index before it raises, and what it
  raises is not the decoder's error.
\<close>

theorem long_packet_counterexample:
  "HANDLE_NAMES 14 = Some ''status'' \<and>
   packet_formats 12 ''status'' = Some (replicate 20 (Uint 8)) \<and>
   8 * length ([1, 97, 0, 0, 0, 0, 0, 0, 0, 0, 0, 0, 0, 0, 0, 0, 0, 0, 0, 0, 0] :: 8 word list)
     \<noteq> format_bits (replicate 20 (Uint 8)) \<and>
   fst (process_packet (packet_formats 12) literal_eval (PacketHandler {})
       14 [1, 97, 0, 0, 0, 0, 0, 0, 0, 0, 0, 0, 0, 0, 0, 0, 0, 0, 0, 0, 0]) = Inr () \<and>
   message (PacketHandler {''status''}) = [] \<and>
   fst (process_packet (packet_formats 12) literal_eval (PacketHandler {''status''})
       14 [1, 97, 0, 0, 0, 0, 0, 0, 0, 0, 0, 0, 0, 0, 0, 0, 0, 0, 0, 0, 0])
     = Inl (UnboundLocalError ''data'') \<and>
   message (snd (process_packet (packet_formats 12) literal_eval (PacketHandler {''status''})
       14 [1, 97, 0, 0, 0, 0, 0, 0, 0, 0, 0, 0, 0, 0, 0, 0, 0, 0, 0, 0, 0])) = ''a'' \<and>
   sample_idxs (snd (process_packet (packet_formats 12) literal_eval (PacketHandler {''status''})
       14 [1, 97, 0, 0, 0, 0, 0, 0, 0, 0, 0, 0, 0, 0, 0, 0, 0, 0, 0, 0, 0])) ''status''
     = Some (Scalar 1) \<and>
   sample_idxs (PacketHandler {''status''}) ''status'' = Some (Scalar (- 1))"
  by code_simp

section \<open>Subscribed streams\<close>

text \<open>
  Claim C5, as amended. For every table of packet formats and every notification on a
  subscribed stream other than status whose packet holds at least the bits of the
  stream's format in the table, \<open>process_packet\<close> raises the \<open>KeyError\<close> of
  \<open>PARAMS["numpy_dtypes"]\<close>; for a shorter packet it raises the decoder's \<open>ReadError\<close>
  before that. In both cases the handler is unchanged and the callback is not invoked:
  nothing is emitted for eeg, accelerometer, gyroscope or telemetry.
\<close>

theorem signal_stream_raises_before_emission:
  assumes "HANDLE_NAMES handle = Some name" and "name \<in> subscriptions h"
    and "name \<noteq> ''status''" and "table name = Some fmt"
  shows "(format_bits fmt \<le> 8 * length packet \<longrightarrow>
            process_packet table leval h handle packet =
              (Inl (KeyError (StrKey ''numpy_dtypes'')), h)) \<and>
         (8 * length packet < format_bits fmt \<longrightarrow>
            process_packet table leval h handle packet = (Inl ReadError, h)) \<and>
         emitted (snd (process_packet table leval h handle packet)) = emitted h"
  using signal_stream_outcome [OF assms(1,2,3), of table leval packet] assms(4) by simp

theorem signal_stream_raises_before_emission_witness:
  "HANDLE_NAMES 23 = Some ''accelerometer'' \<and>
   ''accelerometer'' \<in> subscriptions (PacketHandler {''accelerometer''}) \<and>
   ''accelerometer'' \<noteq> ''status'' \<and>
   packet_formats 12 ''accelerometer'' = Some (Uint 16 # replicate 9 (Sint 16)) \<and>
   format_bits (Uint 16 # replicate 9 (Sint 16))
     \<le> 8 * length ([0, 1, 0, 16, 255, 240, 64, 0, 0, 16, 255, 240, 64, 0, 0, 16, 255, 240, 64, 0] :: 8 word list) \<and>
   process_packet (packet_formats 12) literal_eval (PacketHandler {''accelerometer''}) 23
       [0, 1, 0, 16, 255, 240, 64, 0, 0, 16, 255, 240, 64, 0, 0, 16, 255, 240, 64, 0]
     = (Inl (KeyError (StrKey ''numpy_dtypes'')), PacketHandler {''accelerometer''}) \<and>
   emitted (PacketHandler {''accelerometer''}) = []"
proof -
  have a: "HANDLE_NAMES 23 = Some ''accelerometer''" by (simp add: HANDLE_NAMES_def)
  have b: "''accelerometer'' \<in> subscriptions (PacketHandler {''accelerometer''})"
    by (simp add: subscriptions_PacketHandler)
  have c: "''accelerometer'' \<noteq> ''status''" by simp
  have t: "packet_formats 12 ''accelerometer'' = Some (Uint 16 # replicate 9 (Sint 16))"
    by (rule packet_formats_accelerometer)
  from signal_stream_raises_before_emission [where table = "packet_formats 12", OF a b c t, of
      "[0, 1, 0, 16, 255, 240, 64, 0, 0, 16, 255, 240, 64, 0, 0, 16, 255, 240, 64, 0]" literal_eval]
  show ?thesis using a b t
    by (simp add: emitted_PacketHandler format_bits_accelerometer)
qed

text \<open>
  Claim C5 as stated fails on an accelerometer packet of 5 bytes, with the accelerometer
  format of line 94 (the entry of every \<open>packet_formats n\<close>): the exception is
  \<open>ReadError\<close>, raised by the decoder, not \<open>KeyError\<close>.
\<close>

theorem truncated_packet_counterexample:
  "HANDLE_NAMES 23 = Some ''accelerometer'' \<and>
   ''accelerometer'' \<in> subscriptions (PacketHandler {''accelerometer''}) \<and>
   packet_formats 12 ''accelerometer'' = Some (Uint 16 # replicate 9 (Sint 16)) \<and>
   fst (process_packet (packet_formats 12) literal_eval (PacketHandler {''accelerometer''}) 23
          [0, 1, 0, 16, 255]) = Inl ReadError \<and>
   Inl ReadError \<noteq> (Inl (KeyError (StrKey ''numpy_dtypes'')) :: pyexc + unit)"
  by code_simp

text \<open>
  Claim C9, as amended. For every table of packet formats that holds a format for the
  status stream, and every notification on the subscribed status stream whose packet
  decodes and for which \<open>_process_status\<close> returns, \<open>process_packet\<close> then writes the first
  field as the sample index of the status stream and raises \<open>UnboundLocalError\<close>, a
  \<open>NameError\<close>, for the local variable \<open>data\<close>; what \<open>_process_status\<close> emitted stays
  emitted.
\<close>

theorem status_notification_raises_NameError:
  assumes "HANDLE_NAMES handle = Some ''status''" and "''status'' \<in> subscriptions h"
    and "table ''status'' = Some fmt"
    and "unpack packet fmt = Inr unpacked"
    and "process_status leval h unpacked = (Inr (), h1)"
  shows "process_packet table leval h handle packet =
           (Inl (UnboundLocalError ''data''),
            h1\<lparr>sample_idxs := (sample_idxs h1)(''status'' \<mapsto> Scalar (hd unpacked))\<rparr>) \<and>
         is_NameError (UnboundLocalError ''data'')"
proof -
  from assms(5) obtain u0 us where u: "unpacked = u0 # us"
    using process_status_ok_nonempty by (cases unpacked) auto
  from assms u show ?thesis
    by (simp add: process_packet_def store_chunk_def store_other_def CONVERT_FUNCS_status)
qed

theorem status_notification_raises_NameError_witness:
  "HANDLE_NAMES 14 = Some ''status'' \<and> ''status'' \<in> subscriptions (PacketHandler {''status''}) \<and>
   packet_formats 12 ''status'' = Some (replicate 20 (Uint 8)) \<and>
   fst (process_status literal_eval (PacketHandler {''status''})
          [8, 123, 34, 97, 34, 58, 32, 49, 125, 0, 0, 0, 0, 0, 0, 0, 0, 0, 0, 0]) = Inr () \<and>
   fst (process_packet (packet_formats 12) literal_eval (PacketHandler {''status''}) 14
          [8, 123, 34, 97, 34, 58, 32, 49, 125, 0, 0, 0, 0, 0, 0, 0, 0, 0, 0, 0])
     = Inl (UnboundLocalError ''data'') \<and>
   emitted (snd (process_packet (packet_formats 12) literal_eval (PacketHandler {''status''}) 14
          [8, 123, 34, 97, 34, 58, 32, 49, 125, 0, 0, 0, 0, 0, 0, 0, 0, 0, 0, 0]))
     = [(''status'', Scalar (- 1), Status (PDict [(PStr ''a'', PInt 1)]))]"
proof -
  let ?p = "[8, 123, 34, 97, 34, 58, 32, 49, 125, 0, 0, 0, 0, 0, 0, 0, 0, 0, 0, 0] :: 8 word list"
  let ?u = "[8, 123, 34, 97, 34, 58, 32, 49, 125, 0, 0, 0, 0, 0, 0, 0, 0, 0, 0, 0] :: int list"
  let ?h = "PacketHandler {''status''}"
  have a: "HANDLE_NAMES 14 = Some ''status''" by (simp add: HANDLE_NAMES_def)
  have b: "''status'' \<in> subscriptions ?h" by (simp add: subscriptions_PacketHandler)
  have c: "unpack ?p (replicate 20 (Uint 8)) = Inr ?u" by code_simp
  have d: "fst (process_status literal_eval ?h ?u) = Inr ()" by code_simp
  have e: "emitted (snd (process_status literal_eval ?h ?u))
             = [(''status'', Scalar (- 1), Status (PDict [(PStr ''a'', PInt 1)]))]"
    by code_simp
  from d have f: "process_status literal_eval ?h ?u = (Inr (), snd (process_status literal_eval ?h ?u))"
    by (metis prod.collapse)
  have t: "packet_formats 12 ''status'' = Some (replicate 20 (Uint 8))"
    by (rule packet_formats_status)
  from status_notification_raises_NameError [where table = "packet_formats 12", OF a b t c f]
    a b d e t show ?thesis
    by simp
qed

text \<open>
  Claim C9 as stated fails on a status packet whose length field is 0, with the status
  format of line 97: \<open>_process_status\<close> does not return, and the exception of the call is
  \<open>IndexError\<close>.
\<close>

theorem empty_fragment_counterexample:
  "HANDLE_NAMES 14 = Some ''status'' \<and> ''status'' \<in> subscriptions (PacketHandler {''status''}) \<and>
   packet_formats 12 ''status'' = Some (replicate 20 (Uint 8)) \<and>
   fst (process_packet (packet_formats 12) literal_eval (PacketHandler {''status''}) 14
          [0, 0, 0, 0, 0, 0, 0, 0, 0, 0, 0, 0, 0, 0, 0, 0, 0, 0, 0, 0]) = Inl IndexError \<and>
   \<not> is_NameError IndexError"
  by code_simp

section \<open>The eeg cycle\<close>

text \<open>
  Claim C1, on the module as written. With eeg subscribed, one notification per channel
  in the order of \<open>EEG_HANDLE_RECEIVE_ORDER\<close> gives five calls that each raise, whatever
  the table of packet formats and whatever the packets; the handler is unchanged, so no
  chunk is emitted, where the claim expects one. When the table holds an eeg format and
  the packets hold its bits, each of the five exceptions is the \<open>KeyError\<close> of
  \<open>PARAMS["numpy_dtypes"]\<close>.
\<close>

theorem eeg_cycle_emits_nothing:
  assumes "''eeg'' \<in> subscriptions h"
  shows "EEG_HANDLE_RECEIVE_ORDER = [44, 41, 38, 32, 35] \<and>
         (\<exists>e1 e2 e3 e4 e5.
            feed table leval h [(44, p1), (41, p2), (38, p3), (32, p4), (35, p5)] =
              ([Inl e1, Inl e2, Inl e3, Inl e4, Inl e5], h)) \<and>
         (table ''eeg'' = Some fmt \<and>
          format_bits fmt \<le> 8 * length p1 \<and> format_bits fmt \<le> 8 * length p2 \<and>
          format_bits fmt \<le> 8 * length p3 \<and> format_bits fmt \<le> 8 * length p4 \<and>
          format_bits fmt \<le> 8 * length p5 \<longrightarrow>
            feed table leval h [(44, p1), (41, p2), (38, p3), (32, p4), (35, p5)] =
              (replicate 5 (Inl (KeyError (StrKey ''numpy_dtypes''))), h))"
proof (intro conjI impI)
  show "EEG_HANDLE_RECEIVE_ORDER = [44, 41, 38, 32, 35]"
    by (simp add: EEG_HANDLE_RECEIVE_ORDER_def)
next
  obtain e1 where 1: "process_packet table leval h 44 p1 = (Inl e1, h)"
    using eeg_packet_raises [OF eeg_handles(1) assms] by blast
  obtain e2 where 2: "process_packet table leval h 41 p2 = (Inl e2, h)"
    using eeg_packet_raises [OF eeg_handles(2) assms] by blast
  obtain e3 where 3: "process_packet table leval h 38 p3 = (Inl e3, h)"
    using eeg_packet_raises [OF eeg_handles(3) assms] by blast
  obtain e4 where 4: "process_packet table leval h 32 p4 = (Inl e4, h)"
    using eeg_packet_raises [OF eeg_handles(4) assms] by blast
  obtain e5 where 5: "process_packet table leval h 35 p5 = (Inl e5, h)"
    using eeg_packet_raises [OF eeg_handles(5) assms] by blast
  from 1 2 3 4 5 show "\<exists>e1 e2 e3 e4 e5.
      feed table leval h [(44, p1), (41, p2), (38, p3), (32, p4), (35, p5)] =
        ([Inl e1, Inl e2, Inl e3, Inl e4, Inl e5], h)"
    by simp
next
  assume a: "table ''eeg'' = Some fmt \<and>
          format_bits fmt \<le> 8 * length p1 \<and> format_bits fmt \<le> 8 * length p2 \<and>
          format_bits fmt \<le> 8 * length p3 \<and> format_bits fmt \<le> 8 * length p4 \<and>
          format_bits fmt \<le> 8 * length p5"
  with assms show "feed table leval h [(44, p1), (41, p2), (38, p3), (32, p4), (35, p5)] =
      (replicate 5 (Inl (KeyError (StrKey ''numpy_dtypes''))), h)"
    by (simp add: eeg_packet_outcome eeg_handles eval_nat_numeral)
qed

theorem eeg_cycle_emits_nothing_witness:
  "''eeg'' \<in> subscriptions (PacketHandler {''eeg''}) \<and>
   packet_formats 12 ''eeg'' = Some (Uint 16 # replicate 12 (Uint 12)) \<and>
   feed (packet_formats 12) literal_eval (PacketHandler {''eeg''})
     [(44, [0, 1, 128, 8, 0, 128, 8, 0, 128, 8, 0, 128, 8, 0, 128, 8, 0, 128, 8, 0]),
      (41, [0, 1, 128, 8, 0, 128, 8, 0, 128, 8, 0, 128, 8, 0, 128, 8, 0, 128, 8, 0]),
      (38, [0, 1, 128, 8, 0, 128, 8, 0, 128, 8, 0, 128, 8, 0, 128, 8, 0, 128, 8, 0]),
      (32, [0, 1, 128, 8, 0, 128, 8, 0, 128, 8, 0, 128, 8, 0, 128, 8, 0, 128, 8, 0]),
      (35, [0, 1, 128, 8, 0, 128, 8, 0, 128, 8, 0, 128, 8, 0, 128, 8, 0, 128, 8, 0])] =
     ([Inl (KeyError (StrKey ''numpy_dtypes'')), Inl (KeyError (StrKey ''numpy_dtypes'')),
       Inl (KeyError (StrKey ''numpy_dtypes'')), Inl (KeyError (StrKey ''numpy_dtypes'')),
       Inl (KeyError (StrKey ''numpy_dtypes''))],
      PacketHandler {''eeg''}) \<and>
   emitted (PacketHandler {''eeg''}) = []"
proof -
  let ?p = "[0, 1, 128, 8, 0, 128, 8, 0, 128, 8, 0, 128, 8, 0, 128, 8, 0, 128, 8, 0] :: 8 word list"
  have a: "''eeg'' \<in> subscriptions (PacketHandler {''eeg''})"
    by (simp add: subscriptions_PacketHandler)
  have t: "packet_formats 12 ''eeg'' = Some (Uint 16 # replicate 12 (Uint 12))"
    by (rule packet_formats_eeg)
  have l: "format_bits (Uint 16 # replicate 12 (Uint 12)) \<le> 8 * length ?p"
    by (simp add: format_bits_eeg)
  have r: "replicate 5 x = [x, x, x, x, x]" for x :: "pyexc + unit"
    by (simp add: eval_nat_numeral)
  from eeg_cycle_emits_nothing [OF a, of "packet_formats 12" literal_eval ?p ?p ?p ?p ?p
      "Uint 16 # replicate 12 (Uint 12)"]
  have "packet_formats 12 ''eeg'' = Some (Uint 16 # replicate 12 (Uint 12)) \<and>
        format_bits (Uint 16 # replicate 12 (Uint 12)) \<le> 8 * length ?p \<and>
        format_bits (Uint 16 # replicate 12 (Uint 12)) \<le> 8 * length ?p \<and>
        format_bits (Uint 16 # replicate 12 (Uint 12)) \<le> 8 * length ?p \<and>
        format_bits (Uint 16 # replicate 12 (Uint 12)) \<le> 8 * length ?p \<and>
        format_bits (Uint 16 # replicate 12 (Uint 12)) \<le> 8 * length ?p \<longrightarrow>
        feed (packet_formats 12) literal_eval (PacketHandler {''eeg''})
          [(44, ?p), (41, ?p), (38, ?p), (32, ?p), (35, ?p)] =
          (replicate 5 (Inl (KeyError (StrKey ''numpy_dtypes''))), PacketHandler {''eeg''})"
    by blast
  with t l have "feed (packet_formats 12) literal_eval (PacketHandler {''eeg''})
          [(44, ?p), (41, ?p), (38, ?p), (32, ?p), (35, ?p)] =
          (replicate 5 (Inl (KeyError (StrKey ''numpy_dtypes''))), PacketHandler {''eeg''})"
    by blast
  with a t show ?thesis
    by (simp only: r emitted_PacketHandler simp_thms)
qed

section \<open>The eeg conversion\<close>

text \<open>
  Claim C7. The conversion function of the eeg stream maps every decoded payload value
  \<open>raw\<close> to \<open>0.48828125 * (raw - 2048)\<close>, element by element; 2048 goes to 0 and 4095 to
  \<open>0.48828125 * (4095 - 2048)\<close>.
\<close>

theorem eeg_conversion:
  "CONVERT_FUNCS ''eeg'' = Some convert_eeg \<and>
   convert_eeg (np_array raws) =
     Inr (Arr1 (map (\<lambda>raw. 0.48828125 * (real_of_int raw - 2048)) raws)) \<and>
   convert_eeg (np_array [2048]) = Inr (Arr1 [0]) \<and>
   convert_eeg (np_array [4095]) = Inr (Arr1 [0.48828125 * (4095 - 2048)])"
  by (simp add: CONVERT_FUNCS_def streams_dict_def STREAMS_def convert_eeg_def np_array_def comp_def)

end
